theory Spec2Isabelle
  imports Complex_Main "HOL-Library.Sublist" "HOL-Library.Multiset" "HOL-Library.Word"
begin

section \<open>Strings\<close>

text \<open>
  A JavaScript string is a sequence of 16-bit code units. \<open>str\<close> writes one from a
  literal, each character giving the code unit of its code; the identifiers, names and
  addresses the source spells out are all ASCII.
\<close>

type_synonym code_unit = "16 word"

type_synonym jsstring = "code_unit list"

definition str :: "string \<Rightarrow> jsstring" where
  "str s = map of_char s"

definition is_ascii :: "jsstring \<Rightarrow> bool" where
  "is_ascii s = list_all (\<lambda>u. u < 0x80) s"

text \<open>The letters \<open>A\<close> to \<open>Z\<close> go to \<open>a\<close> to \<open>z\<close>; every other code unit stays.\<close>

definition lower_ascii :: "code_unit \<Rightarrow> code_unit" where
  "lower_ascii u = (if 0x41 \<le> u \<and> u \<le> 0x5A then u + 0x20 else u)"

text \<open>
  \<open>String.prototype.toLowerCase\<close>. It is not locale-sensitive. On a string of ASCII code
  units it lowers the letters \<open>A\<close> to \<open>Z\<close>, one code unit for one. On any other string the
  result is read off the Unicode case tables of the host: it lowers letters outside
  ASCII, it can differ in length from the string, and it can depend on the neighbours of
  a letter. The tables are no part of the repository, so the conversion of those
  strings is the parameter \<open>host\<close>, about which nothing is assumed. Everything that calls
  \<open>toLowerCase\<close> takes \<open>host\<close> along. The examples on ASCII text never consult it and
  are written with \<open>id\<close> in its place.
\<close>

definition toLowerCase :: "(jsstring \<Rightarrow> jsstring) \<Rightarrow> jsstring \<Rightarrow> jsstring" where
  "toLowerCase host s = (if is_ascii s then map lower_ascii s else host s)"

text \<open>
  \<open>s.includes(t)\<close>, named \<open>includes_str\<close> since \<open>includes\<close> is a keyword: \<open>t\<close> occurs in
  \<open>s\<close> as a contiguous run of code units.
\<close>

fun includes_str :: "jsstring \<Rightarrow> jsstring \<Rightarrow> bool" where
  "includes_str [] t = (t = [])"
| "includes_str (c # cs) t = (prefix t (c # cs) \<or> includes_str cs t)"

text \<open>
  What containing a term without regard to case means, said without \<open>toLowerCase\<close>.
  \<open>hay\<close> contains \<open>needle\<close> up to a relation \<open>R\<close> on code units when, at some position of
  \<open>hay\<close>, the run of as many code units as \<open>needle\<close> has is related to \<open>needle\<close> position by
  position. On ASCII text the relation is \<open>same_letter\<close>: two code units are equal, or are
  the upper-case and the lower-case form of one of the letters \<open>A\<close> to \<open>Z\<close>. On text that
  the case tables lower one code unit for one, by a table \<open>tbl\<close>, the relation is
  \<open>same_fold tbl\<close>: the two code units have the same lower-case form.
\<close>

definition contains_up_to ::
  "(code_unit \<Rightarrow> code_unit \<Rightarrow> bool) \<Rightarrow> jsstring \<Rightarrow> jsstring \<Rightarrow> bool" where
  "contains_up_to R hay needle =
     (\<exists>i \<in> {0..length hay}. list_all2 R (take (length needle) (drop i hay)) needle)"

definition same_letter :: "code_unit \<Rightarrow> code_unit \<Rightarrow> bool" where
  "same_letter a b =
     (a = b \<or>
      (0x41 \<le> a \<and> a \<le> 0x5A \<and> b = a + 0x20) \<or>
      (0x41 \<le> b \<and> b \<le> 0x5A \<and> a = b + 0x20))"

definition contains_ignoring_case :: "jsstring \<Rightarrow> jsstring \<Rightarrow> bool" where
  "contains_ignoring_case hay needle = contains_up_to same_letter hay needle"

definition same_fold :: "(code_unit \<Rightarrow> code_unit) \<Rightarrow> code_unit \<Rightarrow> code_unit \<Rightarrow> bool" where
  "same_fold tbl a b = (tbl a = tbl b)"

text \<open>
  For the examples: the lower-case mapping of the Unicode tables on the code units below
  \<open>0x100\<close>, where it is one code unit for one. Besides \<open>A\<close> to \<open>Z\<close> it lowers the letters
  from \<open>U+00C0\<close> to \<open>U+00DE\<close>, the multiplication sign \<open>U+00D7\<close> left out.
\<close>

definition lower_latin1 :: "code_unit \<Rightarrow> code_unit" where
  "lower_latin1 u =
     (if (0x41 \<le> u \<and> u \<le> 0x5A) \<or> (0xC0 \<le> u \<and> u \<le> 0xDE \<and> u \<noteq> 0xD7)
      then u + 0x20 else u)"

section \<open>Data model\<close>

text \<open>
  A JavaScript number as the merge step observes it: comparisons with \<open>0\<close>, and the sign
  of a difference inside a sort comparator. A finite double is a rational, so \<open>Fin\<close>
  carries its exact value. The merge reads the 24h change in numeric contexts only, where
  \<open>undefined\<close> (which the optional chaining of \<open>fetchVanryData\<close> can leave in the field)
  converts to \<open>NaN\<close> and \<open>null\<close> converts to \<open>0\<close>; a field holding one of them is modelled
  by \<open>NaN\<close> and by \<open>Fin 0\<close>.
\<close>

datatype number = NaN | NegInf | Fin rat | PosInf

text \<open>\<open>x > 0\<close> and \<open>x < 0\<close>: false whenever \<open>x\<close> is \<open>NaN\<close>.\<close>

fun gt0 :: "number \<Rightarrow> bool" where
  "gt0 (Fin r) = (0 < r)"
| "gt0 PosInf = True"
| "gt0 _ = False"

fun lt0 :: "number \<Rightarrow> bool" where
  "lt0 (Fin r) = (r < 0)"
| "lt0 NegInf = True"
| "lt0 _ = False"

text \<open>
  \<open>x - y\<close>. On two finite doubles the rounded difference has the sign of the exact
  one (it is zero only when the operands are equal, and overflow keeps the sign), and
  only the sign of a comparator's result is ever read; \<open>Fin (a - b)\<close> therefore stands
  for a number of that sign.
\<close>

fun minus_number :: "number \<Rightarrow> number \<Rightarrow> number" where
  "minus_number NaN _ = NaN"
| "minus_number _ NaN = NaN"
| "minus_number PosInf PosInf = NaN"
| "minus_number NegInf NegInf = NaN"
| "minus_number PosInf _ = PosInf"
| "minus_number NegInf _ = NegInf"
| "minus_number (Fin a) PosInf = NegInf"
| "minus_number (Fin a) NegInf = PosInf"
| "minus_number (Fin a) (Fin b) = Fin (a - b)"

text \<open>\<open>x >= y\<close> and \<open>x <= y\<close> on numbers: false whenever an operand is \<open>NaN\<close>.\<close>

fun ge_number :: "number \<Rightarrow> number \<Rightarrow> bool" where
  "ge_number NaN _ = False"
| "ge_number _ NaN = False"
| "ge_number PosInf _ = True"
| "ge_number _ NegInf = True"
| "ge_number NegInf _ = False"
| "ge_number (Fin a) PosInf = False"
| "ge_number (Fin a) (Fin b) = (b \<le> a)"

definition le_number :: "number \<Rightarrow> number \<Rightarrow> bool" where
  "le_number x y = ge_number y x"

text \<open>
  The Coin record of the market-data responses. The fields \<open>id\<close> and \<open>image\<close> are
  named \<open>coin_id\<close> and \<open>coin_image\<close> here, since \<open>id\<close> and \<open>image\<close> are constants of HOL.
  \<open>name\<close> and \<open>symbol\<close> are strings, as the merge step takes them to be when it calls
  \<open>toLowerCase\<close> on them. Two objects with the same field values are the same record: the
  model compares coins by value.
\<close>

record coin =
  coin_id :: jsstring
  symbol :: jsstring
  name :: jsstring
  coin_image :: jsstring
  current_price :: number
  price_change_percentage_24h :: number
  market_cap :: number

text \<open>
  A coin given by the four fields the merge step reads, the three strings as literals,
  with fixed values in the other three fields; the examples below are written with it.
\<close>

definition example_coin :: "string \<Rightarrow> string \<Rightarrow> string \<Rightarrow> rat \<Rightarrow> coin" where
  "example_coin i s n pct =
     \<lparr>coin_id = str i, symbol = str s, name = str n, coin_image = [],
      current_price = Fin 1, price_change_percentage_24h = Fin pct, market_cap = Fin 1\<rparr>"

text \<open>
  The filter of the view state. It starts as \<open>all\<close> and \<open>setFilter\<close> is only called with the
  key of one of the three filter buttons (lines 209 to 213 and 232).
\<close>

datatype filter_key = All | Gainers | Losers

section \<open>Array.prototype.sort with a comparator\<close>

text \<open>
  The comparator returns a number \<open>v\<close>; \<open>x\<close> is placed after \<open>y\<close> exactly when \<open>v > 0\<close>, and
  a \<open>NaN\<close> result counts as \<open>0\<close>. The sort is stable, so on a comparator that is a
  consistent ordering of the elements the result is the one computed here by stable
  insertion, whatever algorithm the engine runs.
\<close>

fun sortInsert :: "('a \<Rightarrow> 'a \<Rightarrow> number) \<Rightarrow> 'a \<Rightarrow> 'a list \<Rightarrow> 'a list" where
  "sortInsert cmp x [] = [x]"
| "sortInsert cmp x (y # ys) =
     (if gt0 (cmp x y) then y # sortInsert cmp x ys else x # y # ys)"

definition sort_by :: "('a \<Rightarrow> 'a \<Rightarrow> number) \<Rightarrow> 'a list \<Rightarrow> 'a list" where
  "sort_by cmp xs = foldr (sortInsert cmp) xs []"

section \<open>The filter/merge step\<close>

text \<open>The search predicate of lines 330 to 333, and of lines 347 and 348 for the pinned record.\<close>

definition matchesSearch :: "(jsstring \<Rightarrow> jsstring) \<Rightarrow> coin \<Rightarrow> jsstring \<Rightarrow> bool" where
  "matchesSearch host c searchTerm =
     (includes_str (toLowerCase host (name c)) (toLowerCase host searchTerm) \<or>
      includes_str (toLowerCase host (symbol c)) (toLowerCase host searchTerm))"

text \<open>The two comparators handed to \<open>sort\<close>.\<close>

definition cmp_desc :: "coin \<Rightarrow> coin \<Rightarrow> number" where
  "cmp_desc a b = minus_number (price_change_percentage_24h b) (price_change_percentage_24h a)"

definition cmp_asc :: "coin \<Rightarrow> coin \<Rightarrow> number" where
  "cmp_asc a b = minus_number (price_change_percentage_24h a) (price_change_percentage_24h b)"

text \<open>The \<open>switch\<close> on the filter, applied to the coins that passed the search.\<close>

fun applyFilter :: "filter_key \<Rightarrow> coin list \<Rightarrow> coin list" where
  "applyFilter All filtered = filtered"
| "applyFilter Gainers filtered =
     sort_by cmp_desc (filter (\<lambda>c. gt0 (price_change_percentage_24h c)) filtered)"
| "applyFilter Losers filtered =
     sort_by cmp_asc (filter (\<lambda>c. lt0 (price_change_percentage_24h c)) filtered)"

definition vanryMatchesFilter :: "coin \<Rightarrow> filter_key \<Rightarrow> bool" where
  "vanryMatchesFilter v f =
     (f = All \<or>
      (f = Gainers \<and> gt0 (price_change_percentage_24h v)) \<or>
      (f = Losers \<and> lt0 (price_change_percentage_24h v)))"

text \<open>
  The memoised computation of \<open>CryptocurrencyTracker\<close>: \<open>vanryData\<close> is \<open>None\<close> while the
  pinned record is \<open>null\<close>.
\<close>

definition filteredAndSortedCoins ::
  "(jsstring \<Rightarrow> jsstring) \<Rightarrow> coin list \<Rightarrow> coin option \<Rightarrow> jsstring \<Rightarrow> filter_key \<Rightarrow>
     coin list" where
  "filteredAndSortedCoins host coins vanryData searchTerm f =
     (let filtered = applyFilter f (filter (\<lambda>c. matchesSearch host c searchTerm) coins)
      in case vanryData of
           None \<Rightarrow> filtered
         | Some v \<Rightarrow>
             if matchesSearch host v searchTerm \<and> vanryMatchesFilter v f
             then v # filter (\<lambda>c. coin_id c \<noteq> str ''vanar-chain'') filtered
             else filtered)"

text \<open>
  The list before the pinned record is looked at: the coins that pass the search, then
  the filter.
\<close>

definition generic ::
  "(jsstring \<Rightarrow> jsstring) \<Rightarrow> coin list \<Rightarrow> jsstring \<Rightarrow> filter_key \<Rightarrow> coin list" where
  "generic host coins searchTerm f =
     applyFilter f (filter (\<lambda>c. matchesSearch host c searchTerm) coins)"

text \<open>Sorted by the 24h change, largest first and smallest first.\<close>

definition descending :: "coin list \<Rightarrow> bool" where
  "descending xs =
     sorted_wrt (\<lambda>a b. ge_number (price_change_percentage_24h a) (price_change_percentage_24h b)) xs"

definition ascending :: "coin list \<Rightarrow> bool" where
  "ascending xs =
     sorted_wrt (\<lambda>a b. le_number (price_change_percentage_24h a) (price_change_percentage_24h b)) xs"

text \<open>
  What the result is made of: whether the pinned record is shown, and the part of the
  result that comes from the generic list (everything after a prepended pinned record).
\<close>

definition pinnedShown ::
  "(jsstring \<Rightarrow> jsstring) \<Rightarrow> coin option \<Rightarrow> jsstring \<Rightarrow> filter_key \<Rightarrow> bool" where
  "pinnedShown host vanryData searchTerm f =
     (case vanryData of
        None \<Rightarrow> False
      | Some v \<Rightarrow> matchesSearch host v searchTerm \<and> vanryMatchesFilter v f)"

definition nonPinned ::
  "(jsstring \<Rightarrow> jsstring) \<Rightarrow> coin list \<Rightarrow> coin option \<Rightarrow> jsstring \<Rightarrow> filter_key \<Rightarrow>
     coin list" where
  "nonPinned host coins vanryData searchTerm f =
     (if pinnedShown host vanryData searchTerm f
      then tl (filteredAndSortedCoins host coins vanryData searchTerm f)
      else filteredAndSortedCoins host coins vanryData searchTerm f)"

section \<open>The filter/merge step on a store of arrays\<close>

text \<open>
  The same computation with the aliasing written out. Arrays and coin objects live in a
  store and are named by references; \<open>filter\<close> and the spread literal allocate a new
  array, \<open>sort\<close> rewrites the array it is called on and returns the same reference. No
  statement of the source assigns to a field of a coin object, so \<open>objects\<close> is only
  read.
\<close>

type_synonym ref = nat

record store =
  objects :: "ref \<Rightarrow> coin"
  arrays :: "ref \<Rightarrow> ref list"
  next_ref :: ref

definition new_array :: "ref list \<Rightarrow> store \<Rightarrow> ref \<times> store" where
  "new_array xs s =
     (next_ref s, s\<lparr>arrays := (arrays s)(next_ref s := xs), next_ref := Suc (next_ref s)\<rparr>)"

definition array_filter :: "(coin \<Rightarrow> bool) \<Rightarrow> ref \<Rightarrow> store \<Rightarrow> ref \<times> store" where
  "array_filter p a s = new_array (filter (\<lambda>r. p (objects s r)) (arrays s a)) s"

definition array_sort :: "(coin \<Rightarrow> coin \<Rightarrow> number) \<Rightarrow> ref \<Rightarrow> store \<Rightarrow> ref \<times> store" where
  "array_sort cmp a s =
     (a, s\<lparr>arrays := (arrays s)
             (a := sort_by (\<lambda>x y. cmp (objects s x) (objects s y)) (arrays s a))\<rparr>)"

fun applyFilter_store :: "filter_key \<Rightarrow> ref \<Rightarrow> store \<Rightarrow> ref \<times> store" where
  "applyFilter_store All filtered s = (filtered, s)"
| "applyFilter_store Gainers filtered s =
     (case array_filter (\<lambda>c. gt0 (price_change_percentage_24h c)) filtered s of
        (kept, s') \<Rightarrow> array_sort cmp_desc kept s')"
| "applyFilter_store Losers filtered s =
     (case array_filter (\<lambda>c. lt0 (price_change_percentage_24h c)) filtered s of
        (kept, s') \<Rightarrow> array_sort cmp_asc kept s')"

definition filteredAndSortedCoins_store ::
  "(jsstring \<Rightarrow> jsstring) \<Rightarrow> ref \<Rightarrow> ref option \<Rightarrow> jsstring \<Rightarrow> filter_key \<Rightarrow> store \<Rightarrow>
     ref \<times> store" where
  "filteredAndSortedCoins_store host coins vanryData searchTerm f s =
     (case array_filter (\<lambda>c. matchesSearch host c searchTerm) coins s of
        (searched, s1) \<Rightarrow>
          (case applyFilter_store f searched s1 of
             (filtered, s2) \<Rightarrow>
               (case vanryData of
                  None \<Rightarrow> (filtered, s2)
                | Some v \<Rightarrow>
                    if matchesSearch host (objects s2 v) searchTerm \<and>
                       vanryMatchesFilter (objects s2 v) f
                    then (case array_filter (\<lambda>c. coin_id c \<noteq> str ''vanar-chain'')
                                 filtered s2 of
                            (rest, s3) \<Rightarrow> new_array (v # arrays s3 rest) s3)
                    else (filtered, s2))))"

text \<open>
  A store for the examples: the array \<open>0\<close> holds the coin objects \<open>0\<close> (Alpha, \<open>+5\<close>) and
  \<open>1\<close> (Beta, \<open>-3\<close>); every other object is the record Pinned (\<open>+2\<close>). Arrays and objects
  are numbered separately.
\<close>

definition example_store :: store where
  "example_store =
     \<lparr>objects = (\<lambda>r. if r = 0 then example_coin ''a'' ''a'' ''Alpha'' 5
                      else if r = 1 then example_coin ''b'' ''b'' ''Beta'' (-3)
                      else example_coin ''p'' ''p'' ''Pinned'' 2),
      arrays = (\<lambda>a. if a = 0 then [0, 1] else []),
      next_ref = 1\<rparr>"

section \<open>The market-data client\<close>

text \<open>
  The values a parsed JSON body is made of, with \<open>undefined\<close> for what a missing property
  reads as. An object is the list of its properties.
\<close>

datatype jsval =
    JUndefined
  | JNull
  | JBool bool
  | JNum number
  | JStr jsstring
  | JArr "jsval list"
  | JObj "(jsstring \<times> jsval) list"

text \<open>
  What a \<open>throw\<close> or a rejected promise carries. A promise that settles is a value of
  \<open>error + 'a\<close>: \<open>Inl\<close> when it rejects, \<open>Inr\<close> when it fulfils.
\<close>

datatype error = TypeError | SyntaxError | Error jsstring

text \<open>
  A response as the client reads it: the \<open>ok\<close> flag of the status, and what
  \<open>response.json()\<close> settles to. The network is a function from the request URL to what
  \<open>fetch\<close> settles to; \<open>fetch\<close> rejects on a transport failure.
\<close>

record response =
  ok :: bool
  json :: "error + jsval"

type_synonym network = "jsstring \<Rightarrow> error + response"

definition bind_err :: "error + 'a \<Rightarrow> ('a \<Rightarrow> error + 'b) \<Rightarrow> error + 'b" where
  "bind_err m k = (case m of Inl e \<Rightarrow> Inl e | Inr x \<Rightarrow> k x)"

text \<open>\<open>try { body } catch (error) { handler }\<close>.\<close>

definition try_catch :: "error + 'a \<Rightarrow> (error \<Rightarrow> error + 'a) \<Rightarrow> error + 'a" where
  "try_catch body handler = (case body of Inl e \<Rightarrow> handler e | Inr x \<Rightarrow> Inr x)"

text \<open>
  Reading a property. On \<open>null\<close> and \<open>undefined\<close> \<open>x.k\<close> throws a TypeError and \<open>x?.k\<close> is
  \<open>undefined\<close>; on an object it is the property's value, \<open>undefined\<close> when the object has
  none of that name; on the other values it is \<open>undefined\<close>, none of the names the client
  reads being a property of a string, a number, a boolean or an array.
\<close>

fun lookup_prop :: "jsval \<Rightarrow> jsstring \<Rightarrow> jsval" where
  "lookup_prop (JObj kvs) k = (case map_of kvs k of None \<Rightarrow> JUndefined | Some v \<Rightarrow> v)"
| "lookup_prop _ k = JUndefined"

fun nullish :: "jsval \<Rightarrow> bool" where
  "nullish JUndefined = True"
| "nullish JNull = True"
| "nullish _ = False"

definition get_prop :: "jsval \<Rightarrow> jsstring \<Rightarrow> error + jsval" where
  "get_prop x k = (if nullish x then Inl TypeError else Inr (lookup_prop x k))"

definition opt_prop :: "jsval \<Rightarrow> jsstring \<Rightarrow> jsval" where
  "opt_prop x k = (if nullish x then JUndefined else lookup_prop x k)"

definition coins_url :: jsstring where
  "coins_url = str ''https://api.coingecko.com/api/v3/coins/markets?vs_currency=usd&order=market_cap_desc&per_page=100&page=1&sparkline=false&price_change_percentage=24h''"

definition vanry_url :: jsstring where
  "vanry_url = str ''https://api.coingecko.com/api/v3/coins/vanar-chain''"

definition chart_url :: "jsstring \<Rightarrow> jsstring" where
  "chart_url coinId =
     str ''https://api.coingecko.com/api/v3/coins/'' @ coinId @
     str ''/market_chart?vs_currency=usd&days=7''"

text \<open>
  The first lines of each \<open>try\<close> block: await the fetch, throw on a status that is not a
  success, await the parsed body.
\<close>

definition fetch_json :: "network \<Rightarrow> jsstring \<Rightarrow> jsstring \<Rightarrow> error + jsval" where
  "fetch_json net url message =
     bind_err (net url) (\<lambda>response.
       if \<not> ok response then Inl (Error message) else json response)"

definition fetchCoins :: "network \<Rightarrow> error + jsval" where
  "fetchCoins net =
     try_catch (fetch_json net coins_url (str ''Failed to fetch coins''))
       (\<lambda>error. Inr (JArr []))"

definition fetchVanryData :: "network \<Rightarrow> error + jsval" where
  "fetchVanryData net =
     try_catch
       (bind_err (fetch_json net vanry_url (str ''Failed to fetch Vanry data'')) (\<lambda>data.
        bind_err (get_prop data (str ''id'')) (\<lambda>id_v.
        bind_err (get_prop data (str ''symbol'')) (\<lambda>symbol_v.
        bind_err (get_prop data (str ''name'')) (\<lambda>name_v.
        bind_err (get_prop data (str ''image'')) (\<lambda>image_v.
        bind_err (get_prop data (str ''market_data'')) (\<lambda>market_data.
          Inr (JObj
            [(str ''id'', id_v),
             (str ''symbol'', symbol_v),
             (str ''name'', name_v),
             (str ''image'', opt_prop image_v (str ''large'')),
             (str ''current_price'',
                opt_prop (opt_prop market_data (str ''current_price'')) (str ''usd'')),
             (str ''price_change_percentage_24h'',
                opt_prop market_data (str ''price_change_percentage_24h'')),
             (str ''market_cap'',
                opt_prop (opt_prop market_data (str ''market_cap'')) (str ''usd''))]))))))))
       (\<lambda>error. Inr JNull)"

text \<open>
  Iterating a string yields its code points: a high surrogate followed by a low one is
  one element, every other code unit is an element of its own.
\<close>

definition high_surrogate :: "code_unit \<Rightarrow> bool" where
  "high_surrogate u = (0xD800 \<le> u \<and> u \<le> 0xDBFF)"

definition low_surrogate :: "code_unit \<Rightarrow> bool" where
  "low_surrogate u = (0xDC00 \<le> u \<and> u \<le> 0xDFFF)"

fun code_points :: "jsstring \<Rightarrow> jsstring list" where
  "code_points (u # v # rest) =
     (if high_surrogate u \<and> low_surrogate v then [u, v] # code_points rest
      else [u] # code_points (v # rest))"
| "code_points [u] = [[u]]"
| "code_points [] = []"

text \<open>
  The array pattern \<open>[timestamp, price]\<close> takes the first two elements of an array, or the
  first two code points of a string, \<open>undefined\<close> standing for a missing one; any other
  value is not iterable and the pattern throws.
\<close>

definition nth_or_undefined :: "jsval list \<Rightarrow> nat \<Rightarrow> jsval" where
  "nth_or_undefined xs i = (if i < length xs then xs ! i else JUndefined)"

fun destructure_pair :: "jsval \<Rightarrow> error + jsval \<times> jsval" where
  "destructure_pair (JArr xs) = Inr (nth_or_undefined xs 0, nth_or_undefined xs 1)"
| "destructure_pair (JStr s) =
     Inr (nth_or_undefined (map JStr (code_points s)) 0,
          nth_or_undefined (map JStr (code_points s)) 1)"
| "destructure_pair _ = Inl TypeError"

text \<open>
  \<open>xs.map(f)\<close> where \<open>f\<close> may throw: the first throw ends the call. On a value that is not
  an array there is no \<open>map\<close> to call, which is a TypeError.
\<close>

fun map_err :: "('a \<Rightarrow> error + 'b) \<Rightarrow> 'a list \<Rightarrow> error + 'b list" where
  "map_err g [] = Inr []"
| "map_err g (x # xs) =
     bind_err (g x) (\<lambda>y. bind_err (map_err g xs) (\<lambda>ys. Inr (y # ys)))"

fun array_map :: "(jsval \<Rightarrow> error + jsval) \<Rightarrow> jsval \<Rightarrow> error + jsval" where
  "array_map g (JArr xs) = bind_err (map_err g xs) (\<lambda>ys. Inr (JArr ys))"
| "array_map g _ = Inl TypeError"

text \<open>
  \<open>toLocaleDateString\<close> stands for \<open>new Date(timestamp).toLocaleDateString()\<close>: the label
  depends on the locale and time zone of the host, so it is a parameter, and it is
  allowed to throw.
\<close>

definition pricePoint :: "(jsval \<Rightarrow> error + jsstring) \<Rightarrow> jsval \<Rightarrow> error + jsval" where
  "pricePoint toLocaleDateString entry =
     bind_err (destructure_pair entry) (\<lambda>(timestamp, price).
     bind_err (toLocaleDateString timestamp) (\<lambda>date.
       Inr (JObj [(str ''date'', JStr date), (str ''price'', price),
                 (str ''timestamp'', timestamp)])))"

definition fetchChartData ::
  "(jsval \<Rightarrow> error + jsstring) \<Rightarrow> network \<Rightarrow> jsstring \<Rightarrow> error + jsval" where
  "fetchChartData toLocaleDateString net coinId =
     try_catch
       (bind_err (fetch_json net (chart_url coinId) (str ''Failed to fetch chart data'')) (\<lambda>data.
        bind_err (get_prop data (str ''prices'')) (\<lambda>prices.
          array_map (pricePoint toLocaleDateString) prices)))
       (\<lambda>error. Inr (JArr []))"

text \<open>A request failed: the transport failed, or the status is not a success.\<close>

definition request_failed :: "network \<Rightarrow> jsstring \<Rightarrow> bool" where
  "request_failed net url = (case net url of Inl e \<Rightarrow> True | Inr response \<Rightarrow> \<not> ok response)"

section \<open>The detail view and its chart fetch\<close>

text \<open>
  The state of \<open>CoinDetail\<close>, which the tracker renders on every pass once the coins are
  loaded (line 430), so that its state lives on while the modal is closed: the \<open>coin\<close> it
  is given (the selected coin of the tracker), its \<open>chartData\<close> and \<open>loading\<close>, and the
  chart fetches that have been issued and have not resolved yet, each with the id it
  asked for. \<open>chartHistory\<close> is what \<open>fetchChartData\<close> resolves to for an id.

  \<open>Select c\<close> is a click on a card (line 410) and \<open>Close\<close> the closing of the modal (line
  432). The effect of lines 250 to 259 runs when \<open>coin\<close> has changed: with a coin it sets
  \<open>loading\<close> and issues the fetch, without a coin it does nothing. It returns no cleanup.
  \<open>Resolve i\<close> is the \<open>i\<close>-th pending fetch resolving: the two lines after the \<open>await\<close>
  (254 and 255) store the data and clear \<open>loading\<close>, and do not look at the coin selected
  by then.
\<close>

record detail =
  selectedCoin :: "coin option"
  chartData :: jsval
  loading :: bool
  pending :: "jsstring list"

datatype event = Select coin | Close | Resolve nat

definition initial_detail :: detail where
  "initial_detail =
     \<lparr>selectedCoin = None, chartData = JArr [], loading = True, pending = []\<rparr>"

fun step :: "(jsstring \<Rightarrow> jsval) \<Rightarrow> detail \<Rightarrow> event \<Rightarrow> detail" where
  "step chartHistory s (Select c) =
     (if selectedCoin s = Some c then s
      else s\<lparr>selectedCoin := Some c, loading := True, pending := pending s @ [coin_id c]\<rparr>)"
| "step chartHistory s Close = s\<lparr>selectedCoin := None\<rparr>"
| "step chartHistory s (Resolve i) =
     (if i < length (pending s)
      then s\<lparr>chartData := chartHistory (pending s ! i), loading := False,
             pending := take i (pending s) @ drop (Suc i) (pending s)\<rparr>
      else s)"

definition run :: "(jsstring \<Rightarrow> jsval) \<Rightarrow> detail \<Rightarrow> event list \<Rightarrow> detail" where
  "run chartHistory s events = foldl (step chartHistory) s events"

text \<open>
  What the modal draws: nothing without a coin, the spinner while \<open>loading\<close>, the chart
  of \<open>chartData\<close> otherwise.
\<close>

datatype chart_view = NoModal | Spinner | Chart jsval

definition chartShown :: "detail \<Rightarrow> chart_view" where
  "chartShown s =
     (case selectedCoin s of
        None \<Rightarrow> NoModal
      | Some c \<Rightarrow> if loading s then Spinner else Chart (chartData s))"

section \<open>Strings and numbers\<close>

lemma str_empty: "str [] = []"
  by (simp add: str_def)

lemma toLowerCase_Nil: "toLowerCase host [] = []"
  by (simp add: toLowerCase_def is_ascii_def)

text \<open>On ASCII text the lower-case form does not depend on the host.\<close>

lemma toLowerCase_ascii: "is_ascii s \<Longrightarrow> toLowerCase host s = map lower_ascii s"
  by (simp add: toLowerCase_def)

lemma matchesSearch_any_host:
  "is_ascii t \<Longrightarrow> is_ascii (name c) \<Longrightarrow> is_ascii (symbol c) \<Longrightarrow>
     matchesSearch host c t = matchesSearch host' c t"
  by (simp add: matchesSearch_def toLowerCase_ascii)

lemma includes_Nil: "includes_str s []"
  by (cases s) simp_all

lemma includes_str_sublist: "includes_str s t \<longleftrightarrow> sublist t s"
  by (induction s) (auto simp: sublist_Cons_right)

lemma matchesSearch_empty: "matchesSearch host c []"
  by (simp add: matchesSearch_def toLowerCase_Nil includes_Nil)

text \<open>
  Where the lower-case forms are taken one code unit for one, the search predicate of
  the source is containment up to code units of equal lower-case form: a run of the
  lowered name is the lowering of a run of the name. On ASCII text, two code units have
  equal lower-case forms exactly when they are the same letter.
\<close>

lemma map_fold_eq:
  "map tbl u = map tbl t \<longleftrightarrow> list_all2 (same_fold tbl) u t"
  by (induction u arbitrary: t) (auto simp: same_fold_def list_all2_Cons1 Cons_eq_map_conv)

lemma sublist_map_ex:
  "sublist ys (map f xs) \<longleftrightarrow> (\<exists>u. sublist u xs \<and> map f u = ys)"
proof
  assume "sublist ys (map f xs)"
  then obtain ps ss where "map f xs = ps @ ys @ ss"
    unfolding sublist_def by blast
  then have "\<exists>us vs. xs = us @ vs \<and> ps = map f us \<and> ys @ ss = map f vs"
    by (simp only: map_eq_append_conv)
  then obtain us vs where 1: "xs = us @ vs" "ys @ ss = map f vs"
    by blast
  from 1(2) have "\<exists>u ws. vs = u @ ws \<and> ys = map f u \<and> ss = map f ws"
    by (simp only: append_eq_map_conv)
  then obtain u ws where 2: "vs = u @ ws" "map f u = ys"
    by auto
  have "sublist u xs"
    unfolding sublist_def using 1(1) 2(1) by blast
  with 2(2) show "\<exists>u. sublist u xs \<and> map f u = ys" by blast
next
  assume "\<exists>u. sublist u xs \<and> map f u = ys"
  then obtain u ps ss where "xs = ps @ u @ ss" "map f u = ys"
    unfolding sublist_def by blast
  then have "map f xs = map f ps @ ys @ map f ss" by simp
  then show "sublist ys (map f xs)"
    unfolding sublist_def by blast
qed

lemma contains_up_to_sublist:
  "contains_up_to R hay needle \<longleftrightarrow> (\<exists>u. sublist u hay \<and> list_all2 R u needle)"
proof
  assume "contains_up_to R hay needle"
  then obtain i where i: "list_all2 R (take (length needle) (drop i hay)) needle"
    by (auto simp: contains_up_to_def)
  have "hay = take i hay @ take (length needle) (drop i hay) @ drop (length needle) (drop i hay)"
    by (simp only: append_take_drop_id)
  then have "sublist (take (length needle) (drop i hay)) hay"
    unfolding sublist_def by blast
  with i show "\<exists>u. sublist u hay \<and> list_all2 R u needle" by blast
next
  assume "\<exists>u. sublist u hay \<and> list_all2 R u needle"
  then obtain u ps ss where u: "hay = ps @ u @ ss" "list_all2 R u needle"
    by (auto simp: sublist_def)
  have len: "length u = length needle"
    using u(2) by (rule list_all2_lengthD)
  have "take (length needle) (drop (length ps) hay) = u"
    using u(1) len by simp
  moreover have "length ps \<in> {0..length hay}" using u(1) by simp
  ultimately show "contains_up_to R hay needle"
    unfolding contains_up_to_def using u(2) by blast
qed

lemma includes_map_fold:
  "includes_str (map tbl n) (map tbl t) \<longleftrightarrow> contains_up_to (same_fold tbl) n t"
  by (simp add: includes_str_sublist sublist_map_ex map_fold_eq contains_up_to_sublist)

lemma matchesSearch_fold:
  "toLowerCase host t = map tbl t \<Longrightarrow> toLowerCase host (name c) = map tbl (name c) \<Longrightarrow>
   toLowerCase host (symbol c) = map tbl (symbol c) \<Longrightarrow>
     matchesSearch host c t \<longleftrightarrow>
       contains_up_to (same_fold tbl) (name c) t \<or>
       contains_up_to (same_fold tbl) (symbol c) t"
  by (simp add: matchesSearch_def includes_map_fold)

lemma lower_ascii_eq: "lower_ascii a = lower_ascii b \<longleftrightarrow> same_letter a b"
  unfolding lower_ascii_def same_letter_def
  by (auto simp: word_le_nat_alt unat_word_ariths word_unat_eq_iff)

lemma same_fold_lower_ascii: "same_fold lower_ascii = same_letter"
  by (intro ext) (simp add: same_fold_def lower_ascii_eq)

lemma matchesSearch_ascii:
  "is_ascii t \<Longrightarrow> is_ascii (name c) \<Longrightarrow> is_ascii (symbol c) \<Longrightarrow>
     matchesSearch host c t \<longleftrightarrow>
       contains_ignoring_case (name c) t \<or> contains_ignoring_case (symbol c) t"
  using matchesSearch_fold [of host t lower_ascii c]
  by (simp add: toLowerCase_def same_fold_lower_ascii contains_ignoring_case_def)

lemma ge_number_trans: "ge_number x y \<Longrightarrow> ge_number y z \<Longrightarrow> ge_number x z"
  by (cases x; cases y; cases z) auto

lemma gt0_minus_ge: "gt0 (minus_number x y) \<Longrightarrow> ge_number x y"
  by (cases x; cases y) auto

lemma not_gt0_minus_ge:
  "x \<noteq> NaN \<Longrightarrow> y \<noteq> NaN \<Longrightarrow> \<not> gt0 (minus_number x y) \<Longrightarrow> ge_number y x"
  by (cases x; cases y) auto

lemma gt0_not_NaN: "gt0 x \<Longrightarrow> x \<noteq> NaN"
  by (cases x) auto

lemma lt0_not_NaN: "lt0 x \<Longrightarrow> x \<noteq> NaN"
  by (cases x) auto

lemma gt0_not_lt0: "gt0 x \<Longrightarrow> \<not> lt0 x"
  by (cases x) auto

section \<open>The sort returns a sorted rearrangement\<close>

lemma mset_sortInsert: "mset (sortInsert cmp x ys) = add_mset x (mset ys)"
  by (induction ys) auto

lemma mset_sort_by: "mset (sort_by cmp xs) = mset xs"
  by (induction xs) (auto simp: sort_by_def mset_sortInsert)

lemma set_sort_by: "set (sort_by cmp xs) = set xs"
  by (metis mset_sort_by set_mset_mset)

text \<open>
  Inserting into a sorted list keeps it sorted, for any relation \<open>R\<close> that the comparator
  decides on the elements at hand: a positive result means \<open>R b a\<close>, any other result
  means \<open>R a b\<close>.
\<close>

lemma sorted_sortInsert:
  assumes "\<And>a b. gt0 (cmp a b) \<Longrightarrow> R b a"
    and "\<And>a b. a \<in> S \<Longrightarrow> b \<in> S \<Longrightarrow> \<not> gt0 (cmp a b) \<Longrightarrow> R a b"
    and "\<And>a b c. R a b \<Longrightarrow> R b c \<Longrightarrow> R a c"
  shows "x \<in> S \<Longrightarrow> set ys \<subseteq> S \<Longrightarrow> sorted_wrt R ys \<Longrightarrow> sorted_wrt R (sortInsert cmp x ys)"
proof (induction ys)
  case Nil
  then show ?case by simp
next
  case (Cons y ys)
  show ?case
  proof (cases "gt0 (cmp x y)")
    case True
    have "R y x" using True assms(1) by blast
    moreover have "\<forall>z\<in>set ys. R y z" using Cons.prems(3) by simp
    moreover have "sorted_wrt R (sortInsert cmp x ys)"
      using Cons by simp
    ultimately show ?thesis using True
      by (auto simp: set_mset_mset[symmetric] mset_sortInsert simp del: set_mset_mset)
  next
    case False
    have xy: "R x y" using False assms(2) Cons.prems by simp
    have "\<forall>z\<in>set ys. R x z"
      using xy Cons.prems(3) assms(3) by auto
    then show ?thesis using False xy Cons.prems(3) by simp
  qed
qed

lemma sorted_sort_by:
  assumes "\<And>a b. gt0 (cmp a b) \<Longrightarrow> R b a"
    and "\<And>a b. a \<in> S \<Longrightarrow> b \<in> S \<Longrightarrow> \<not> gt0 (cmp a b) \<Longrightarrow> R a b"
    and "\<And>a b c. R a b \<Longrightarrow> R b c \<Longrightarrow> R a c"
  shows "set xs \<subseteq> S \<Longrightarrow> sorted_wrt R (sort_by cmp xs)"
proof (induction xs)
  case Nil
  then show ?case by (simp add: sort_by_def)
next
  case (Cons x xs)
  have "sorted_wrt R (sortInsert cmp x (sort_by cmp xs))"
  proof (rule sorted_sortInsert[where S = S])
    show "x \<in> S" using Cons.prems by simp
    show "set (sort_by cmp xs) \<subseteq> S" using Cons.prems by (simp add: set_sort_by)
    show "sorted_wrt R (sort_by cmp xs)" using Cons by simp
  qed (use assms in blast)+
  then show ?case by (simp add: sort_by_def)
qed

lemma descending_sort_by:
  assumes "\<forall>c\<in>set xs. price_change_percentage_24h c \<noteq> NaN"
  shows "descending (sort_by cmp_desc xs)"
  unfolding descending_def
proof (rule sorted_sort_by[where S = "{c. price_change_percentage_24h c \<noteq> NaN}"])
  show "set xs \<subseteq> {c. price_change_percentage_24h c \<noteq> NaN}" using assms by auto
qed (auto simp: cmp_desc_def intro: gt0_minus_ge not_gt0_minus_ge ge_number_trans)

lemma ascending_sort_by:
  assumes "\<forall>c\<in>set xs. price_change_percentage_24h c \<noteq> NaN"
  shows "ascending (sort_by cmp_asc xs)"
  unfolding ascending_def
proof (rule sorted_sort_by[where S = "{c. price_change_percentage_24h c \<noteq> NaN}"])
  show "set xs \<subseteq> {c. price_change_percentage_24h c \<noteq> NaN}" using assms by auto
qed (auto simp: cmp_asc_def le_number_def intro: gt0_minus_ge not_gt0_minus_ge ge_number_trans)

lemma descending_filter: "descending xs \<Longrightarrow> descending (filter p xs)"
  by (simp add: descending_def sorted_wrt_filter)

lemma ascending_filter: "ascending xs \<Longrightarrow> ascending (filter p xs)"
  by (simp add: ascending_def sorted_wrt_filter)

section \<open>The shape of the merged list\<close>

text \<open>
  \<open>vanryMatchesFilter\<close>, read on a coin of the generic list, is the test the \<open>switch\<close>
  applies to it: the list and the pinned record go through the same predicates.
\<close>

lemma set_applyFilter: "set (applyFilter f xs) = {c \<in> set xs. vanryMatchesFilter c f}"
  by (cases f) (auto simp: set_sort_by vanryMatchesFilter_def)

lemma set_generic:
  "set (generic host coins s f) = {c \<in> set coins. matchesSearch host c s \<and> vanryMatchesFilter c f}"
  by (auto simp: generic_def set_applyFilter)

lemma generic_empty_All: "generic host coins [] All = coins"
  by (simp add: generic_def matchesSearch_empty)

lemma generic_Gainers: "descending (generic host coins s Gainers)"
  by (simp add: generic_def descending_sort_by gt0_not_NaN)

lemma generic_Losers: "ascending (generic host coins s Losers)"
  by (simp add: generic_def ascending_sort_by lt0_not_NaN)

lemma merge_Some:
  "filteredAndSortedCoins host coins (Some v) s f =
     (if matchesSearch host v s \<and> vanryMatchesFilter v f
      then v # filter (\<lambda>c. coin_id c \<noteq> str ''vanar-chain'') (generic host coins s f)
      else generic host coins s f)"
  by (simp add: filteredAndSortedCoins_def generic_def Let_def)

lemma merge_None: "filteredAndSortedCoins host coins None s f = generic host coins s f"
  by (simp add: filteredAndSortedCoins_def generic_def)

lemma pinned_in_merge:
  "v \<in> set (filteredAndSortedCoins host coins (Some v) s f) \<longleftrightarrow>
     matchesSearch host v s \<and> vanryMatchesFilter v f"
  by (auto simp: merge_Some set_generic)

lemma matchesSearch_merge:
  "c \<in> set (filteredAndSortedCoins host coins vanryData s f) \<Longrightarrow> matchesSearch host c s"
  by (cases vanryData) (auto simp: merge_Some merge_None set_generic split: if_splits)

lemma matchesFilter_merge:
  "c \<in> set (filteredAndSortedCoins host coins vanryData s f) \<Longrightarrow> vanryMatchesFilter c f"
  by (cases vanryData) (auto simp: merge_Some merge_None set_generic split: if_splits)

lemma nonPinned_eq:
  "nonPinned host coins vanryData s f =
     (if pinnedShown host vanryData s f
      then filter (\<lambda>c. coin_id c \<noteq> str ''vanar-chain'') (generic host coins s f)
      else generic host coins s f)"
  by (cases vanryData) (auto simp: nonPinned_def pinnedShown_def merge_Some merge_None)

text \<open>The merged list is the pinned record, when it is shown, followed by \<open>nonPinned\<close>.\<close>

lemma merge_split:
  "filteredAndSortedCoins host coins vanryData s f =
     (case vanryData of
        None \<Rightarrow> nonPinned host coins vanryData s f
      | Some v \<Rightarrow>
          if pinnedShown host vanryData s f then v # nonPinned host coins vanryData s f
          else nonPinned host coins vanryData s f)"
  by (cases vanryData) (auto simp: nonPinned_def pinnedShown_def merge_Some merge_None)

section \<open>The store computes the same list\<close>

lemma map_sortInsert:
  "map g (sortInsert (\<lambda>x y. cmp (g x) (g y)) x ys) = sortInsert cmp (g x) (map g ys)"
  by (induction ys) auto

lemma map_sort_by:
  "map g (sort_by (\<lambda>x y. cmp (g x) (g y)) xs) = sort_by cmp (map g xs)"
  by (induction xs) (auto simp: sort_by_def map_sortInsert)

lemma applyFilter_store_frame:
  "applyFilter_store f a s = (r, s') \<Longrightarrow> n \<le> a \<Longrightarrow> a < next_ref s \<Longrightarrow>
     objects s' = objects s \<and> (\<forall>b<n. arrays s' b = arrays s b) \<and>
     n \<le> r \<and> r < next_ref s' \<and> next_ref s \<le> next_ref s'"
  by (cases f) (auto simp: array_filter_def new_array_def array_sort_def)

lemma applyFilter_store_refines:
  "applyFilter_store f a s = (r, s') \<Longrightarrow>
     map (objects s') (arrays s' r) = applyFilter f (map (objects s) (arrays s a))"
  by (cases f)
    (auto simp: array_filter_def new_array_def array_sort_def map_sort_by filter_map comp_def)

text \<open>
  Read through the store, the array that \<open>filteredAndSortedCoins_store\<close> returns holds
  the list that \<open>filteredAndSortedCoins\<close> computes from the contents of its arguments.
\<close>

lemma store_refines:
  "filteredAndSortedCoins_store host coins vanryData searchTerm f s = (r, s') \<Longrightarrow>
     map (objects s') (arrays s' r) =
       filteredAndSortedCoins host (map (objects s) (arrays s coins))
         (map_option (objects s) vanryData) searchTerm f"
proof -
  assume run: "filteredAndSortedCoins_store host coins vanryData searchTerm f s = (r, s')"
  obtain searched s1
    where 1: "array_filter (\<lambda>c. matchesSearch host c searchTerm) coins s = (searched, s1)"
    by (cases "array_filter (\<lambda>c. matchesSearch host c searchTerm) coins s")
  obtain filtered s2 where 2: "applyFilter_store f searched s1 = (filtered, s2)"
    by (cases "applyFilter_store f searched s1")
  have f1: "objects s1 = objects s"
    "map (objects s1) (arrays s1 searched) =
       filter (\<lambda>c. matchesSearch host c searchTerm) (map (objects s) (arrays s coins))"
    using 1 by (auto simp: array_filter_def new_array_def filter_map comp_def)
  have o2: "objects s2 = objects s"
    using 2 f1(1) by (cases f) (auto simp: array_filter_def new_array_def array_sort_def)
  have f2: "map (objects s2) (arrays s2 filtered) =
      generic host (map (objects s) (arrays s coins)) searchTerm f"
    using applyFilter_store_refines[OF 2] f1(2) by (simp add: generic_def)
  show ?thesis
  proof (cases vanryData)
    case None
    then have "(r, s') = (filtered, s2)"
      using run 1 2 by (simp add: filteredAndSortedCoins_store_def)
    then show ?thesis using f2 None by (simp add: merge_None)
  next
    case (Some v)
    show ?thesis
    proof (cases "matchesSearch host (objects s v) searchTerm \<and> vanryMatchesFilter (objects s v) f")
      case False
      then have "(r, s') = (filtered, s2)"
        using run 1 2 Some o2 by (auto simp: filteredAndSortedCoins_store_def)
      then show ?thesis using f2 Some False by (auto simp: merge_Some)
    next
      case True
      have "(r, s') =
          (case array_filter (\<lambda>c. coin_id c \<noteq> str ''vanar-chain'') filtered s2 of
             (rest, s3) \<Rightarrow> new_array (v # arrays s3 rest) s3)"
        using run 1 2 Some o2 True by (simp add: filteredAndSortedCoins_store_def)
      then have "map (objects s') (arrays s' r) =
          objects s v #
          filter (\<lambda>c. coin_id c \<noteq> str ''vanar-chain'') (map (objects s2) (arrays s2 filtered))"
        using o2 by (auto simp: array_filter_def new_array_def filter_map comp_def)
      then show ?thesis using f2 Some True by (simp add: merge_Some)
    qed
  qed
qed

section \<open>The client and the detail view\<close>

lemma try_catch_Inr:
  "(\<And>e. \<exists>v. handler e = Inr v) \<Longrightarrow> \<exists>v. try_catch body handler = Inr v"
  by (cases body) (auto simp: try_catch_def)

lemma fetch_json_failed:
  "request_failed net url \<Longrightarrow> \<exists>e. fetch_json net url message = Inl e"
  by (auto simp: request_failed_def fetch_json_def bind_err_def split: sum.splits)

text \<open>
  A fetch that resolves stores its data and clears \<open>loading\<close>; the coin selected at that
  moment plays no part.
\<close>

lemma step_Resolve:
  "i < length (pending s) \<Longrightarrow>
     chartData (step h s (Resolve i)) = h (pending s ! i) \<and>
     loading (step h s (Resolve i)) = False \<and>
     selectedCoin (step h s (Resolve i)) = selectedCoin s"
  by simp

section \<open>The claims about the merge\<close>

text \<open>
  C1, as the code has it. The pinned record is in the merged list exactly when it passes,
  on its own, the search predicate and the filter predicate. When it passes, the result is
  the pinned record followed by the filtered list without the coins whose id is
  \<open>vanar-chain\<close>, the fixed id the pinned coin is fetched under; for a pinned record of
  that id these are the coins that share its id. When it does not pass, the result is
  the filtered list and the pinned record is not in it. In particular a pinned record
  with a positive 24h change is absent under \<open>losers\<close>, whatever the search term.
\<close>

theorem pinned_merge:
  "(v \<in> set (filteredAndSortedCoins host coins (Some v) s f) \<longleftrightarrow>
      matchesSearch host v s \<and> vanryMatchesFilter v f) \<and>
   (matchesSearch host v s \<and> vanryMatchesFilter v f \<longrightarrow>
      filteredAndSortedCoins host coins (Some v) s f =
        v # filter (\<lambda>c. coin_id c \<noteq> str ''vanar-chain'') (generic host coins s f)) \<and>
   (matchesSearch host v s \<and> vanryMatchesFilter v f \<and> coin_id v = str ''vanar-chain'' \<longrightarrow>
      filteredAndSortedCoins host coins (Some v) s f =
        v # filter (\<lambda>c. coin_id c \<noteq> coin_id v) (generic host coins s f)) \<and>
   (\<not> (matchesSearch host v s \<and> vanryMatchesFilter v f) \<longrightarrow>
      filteredAndSortedCoins host coins (Some v) s f = generic host coins s f \<and>
      v \<notin> set (filteredAndSortedCoins host coins (Some v) s f)) \<and>
   (gt0 (price_change_percentage_24h v) \<longrightarrow>
      v \<notin> set (filteredAndSortedCoins host coins (Some v) s Losers))"
proof -
  have a: "v \<in> set (filteredAndSortedCoins host coins (Some v) s f) \<longleftrightarrow>
      matchesSearch host v s \<and> vanryMatchesFilter v f"
    by (rule pinned_in_merge)
  have b: "gt0 (price_change_percentage_24h v) \<longrightarrow>
      v \<notin> set (filteredAndSortedCoins host coins (Some v) s Losers)"
    by (auto simp: pinned_in_merge vanryMatchesFilter_def dest: gt0_not_lt0)
  show ?thesis using a b by (simp add: merge_Some)
qed

text \<open>
  The pinned record Vanar Chain (\<open>+5\<close>) over a list holding Bitcoin (\<open>-1\<close>) and the list's
  own Vanar Chain entry (\<open>+4\<close>): shown first under \<open>all\<close>, the list's entry removed; absent
  under \<open>losers\<close>.
\<close>

theorem pinned_merge_witness:
  "matchesSearch id (example_coin ''vanar-chain'' ''vanry'' ''Vanar Chain'' 5) (str '''') \<and>
   vanryMatchesFilter (example_coin ''vanar-chain'' ''vanry'' ''Vanar Chain'' 5) All \<and>
   coin_id (example_coin ''vanar-chain'' ''vanry'' ''Vanar Chain'' 5) = str ''vanar-chain'' \<and>
   filteredAndSortedCoins id
     [example_coin ''bitcoin'' ''btc'' ''Bitcoin'' (-1),
      example_coin ''vanar-chain'' ''vanry'' ''Vanar Chain'' 4]
     (Some (example_coin ''vanar-chain'' ''vanry'' ''Vanar Chain'' 5)) (str '''') All =
   [example_coin ''vanar-chain'' ''vanry'' ''Vanar Chain'' 5,
    example_coin ''bitcoin'' ''btc'' ''Bitcoin'' (-1)] \<and>
   gt0 (price_change_percentage_24h (example_coin ''vanar-chain'' ''vanry'' ''Vanar Chain'' 5)) \<and>
   example_coin ''vanar-chain'' ''vanry'' ''Vanar Chain'' 5 \<notin>
     set (filteredAndSortedCoins id
       [example_coin ''bitcoin'' ''btc'' ''Bitcoin'' (-1),
        example_coin ''vanar-chain'' ''vanry'' ''Vanar Chain'' 4]
       (Some (example_coin ''vanar-chain'' ''vanry'' ''Vanar Chain'' 5)) (str '''') Losers)"
proof -
  have m: "matchesSearch id (example_coin ''vanar-chain'' ''vanry'' ''Vanar Chain'' 5) (str '''') \<and>
      vanryMatchesFilter (example_coin ''vanar-chain'' ''vanry'' ''Vanar Chain'' 5) All \<and>
      coin_id (example_coin ''vanar-chain'' ''vanry'' ''Vanar Chain'' 5) = str ''vanar-chain''"
    by code_simp
  have p: "gt0 (price_change_percentage_24h
      (example_coin ''vanar-chain'' ''vanry'' ''Vanar Chain'' 5))"
    by code_simp
  have g: "filter
      (\<lambda>c. coin_id c \<noteq> coin_id (example_coin ''vanar-chain'' ''vanry'' ''Vanar Chain'' 5))
      (generic id [example_coin ''bitcoin'' ''btc'' ''Bitcoin'' (-1),
                example_coin ''vanar-chain'' ''vanry'' ''Vanar Chain'' 4] (str '''') All) =
      [example_coin ''bitcoin'' ''btc'' ''Bitcoin'' (-1)]"
    by code_simp
  have r1: "filteredAndSortedCoins id
     [example_coin ''bitcoin'' ''btc'' ''Bitcoin'' (-1),
      example_coin ''vanar-chain'' ''vanry'' ''Vanar Chain'' 4]
     (Some (example_coin ''vanar-chain'' ''vanry'' ''Vanar Chain'' 5)) (str '''') All =
     example_coin ''vanar-chain'' ''vanry'' ''Vanar Chain'' 5 #
     filter
      (\<lambda>c. coin_id c \<noteq> coin_id (example_coin ''vanar-chain'' ''vanry'' ''Vanar Chain'' 5))
      (generic id [example_coin ''bitcoin'' ''btc'' ''Bitcoin'' (-1),
                example_coin ''vanar-chain'' ''vanry'' ''Vanar Chain'' 4] (str '''') All)"
    using m pinned_merge [of "example_coin ''vanar-chain'' ''vanry'' ''Vanar Chain'' 5" id
        "[example_coin ''bitcoin'' ''btc'' ''Bitcoin'' (-1),
          example_coin ''vanar-chain'' ''vanry'' ''Vanar Chain'' 4]" "str ''''" All]
    by blast
  have r2: "example_coin ''vanar-chain'' ''vanry'' ''Vanar Chain'' 5 \<notin>
     set (filteredAndSortedCoins id
       [example_coin ''bitcoin'' ''btc'' ''Bitcoin'' (-1),
        example_coin ''vanar-chain'' ''vanry'' ''Vanar Chain'' 4]
       (Some (example_coin ''vanar-chain'' ''vanry'' ''Vanar Chain'' 5)) (str '''') Losers)"
    using p pinned_merge [of "example_coin ''vanar-chain'' ''vanry'' ''Vanar Chain'' 5" id
        "[example_coin ''bitcoin'' ''btc'' ''Bitcoin'' (-1),
          example_coin ''vanar-chain'' ''vanry'' ''Vanar Chain'' 4]" "str ''''" Losers]
    by blast
  show ?thesis using m p r1 [unfolded g] r2 by blast
qed

text \<open>
  The removal does not go by the pinned record's own id: a pinned record with the id \<open>p\<close>
  matches, and the coin of the list with the same id \<open>p\<close> stays in the result behind it.
\<close>

theorem pinned_merge_counterexample:
  "matchesSearch id (example_coin ''p'' ''p'' ''Pinned'' 2) (str '''') \<and>
   vanryMatchesFilter (example_coin ''p'' ''p'' ''Pinned'' 2) All \<and>
   coin_id (example_coin ''p'' ''p'' ''Pinned'' 1) = coin_id (example_coin ''p'' ''p'' ''Pinned'' 2) \<and>
   filteredAndSortedCoins id [example_coin ''p'' ''p'' ''Pinned'' 1]
     (Some (example_coin ''p'' ''p'' ''Pinned'' 2)) (str '''') All =
   [example_coin ''p'' ''p'' ''Pinned'' 2, example_coin ''p'' ''p'' ''Pinned'' 1]"
  by code_simp

text \<open>
  C2. Under \<open>gainers\<close> every item of the merged list other than a prepended pinned record
  has a 24h change above zero, and these items are in descending order of it; under
  \<open>losers\<close> every such item has a 24h change below zero, and they are in ascending order.
\<close>

theorem gainers_losers_sorted:
  "(\<forall>c \<in> set (nonPinned host coins vanryData s Gainers). gt0 (price_change_percentage_24h c)) \<and>
   descending (nonPinned host coins vanryData s Gainers) \<and>
   (\<forall>c \<in> set (nonPinned host coins vanryData s Losers). lt0 (price_change_percentage_24h c)) \<and>
   ascending (nonPinned host coins vanryData s Losers)"
  by (auto simp: nonPinned_eq set_generic vanryMatchesFilter_def
      intro: descending_filter ascending_filter generic_Gainers generic_Losers)

theorem gainers_losers_sorted_witness:
  "nonPinned id
     [example_coin ''a'' ''a'' ''Alpha'' 5, example_coin ''b'' ''b'' ''Beta'' (-3),
      example_coin ''c'' ''c'' ''Gamma'' 7, example_coin ''d'' ''d'' ''Delta'' (-1)]
     (Some (example_coin ''p'' ''p'' ''Pinned'' 2)) (str '''') Gainers =
   [example_coin ''c'' ''c'' ''Gamma'' 7, example_coin ''a'' ''a'' ''Alpha'' 5] \<and>
   gt0 (price_change_percentage_24h (example_coin ''c'' ''c'' ''Gamma'' 7)) \<and>
   gt0 (price_change_percentage_24h (example_coin ''a'' ''a'' ''Alpha'' 5)) \<and>
   descending [example_coin ''c'' ''c'' ''Gamma'' 7, example_coin ''a'' ''a'' ''Alpha'' 5] \<and>
   nonPinned id
     [example_coin ''a'' ''a'' ''Alpha'' 5, example_coin ''b'' ''b'' ''Beta'' (-3),
      example_coin ''c'' ''c'' ''Gamma'' 7, example_coin ''d'' ''d'' ''Delta'' (-1)]
     (Some (example_coin ''p'' ''p'' ''Pinned'' 2)) (str '''') Losers =
   [example_coin ''b'' ''b'' ''Beta'' (-3), example_coin ''d'' ''d'' ''Delta'' (-1)] \<and>
   lt0 (price_change_percentage_24h (example_coin ''b'' ''b'' ''Beta'' (-3))) \<and>
   lt0 (price_change_percentage_24h (example_coin ''d'' ''d'' ''Delta'' (-1))) \<and>
   ascending [example_coin ''b'' ''b'' ''Beta'' (-3), example_coin ''d'' ''d'' ''Delta'' (-1)]"
proof -
  have g: "nonPinned id
     [example_coin ''a'' ''a'' ''Alpha'' 5, example_coin ''b'' ''b'' ''Beta'' (-3),
      example_coin ''c'' ''c'' ''Gamma'' 7, example_coin ''d'' ''d'' ''Delta'' (-1)]
     (Some (example_coin ''p'' ''p'' ''Pinned'' 2)) (str '''') Gainers =
     [example_coin ''c'' ''c'' ''Gamma'' 7, example_coin ''a'' ''a'' ''Alpha'' 5]"
    by code_simp
  have l: "nonPinned id
     [example_coin ''a'' ''a'' ''Alpha'' 5, example_coin ''b'' ''b'' ''Beta'' (-3),
      example_coin ''c'' ''c'' ''Gamma'' 7, example_coin ''d'' ''d'' ''Delta'' (-1)]
     (Some (example_coin ''p'' ''p'' ''Pinned'' 2)) (str '''') Losers =
     [example_coin ''b'' ''b'' ''Beta'' (-3), example_coin ''d'' ''d'' ''Delta'' (-1)]"
    by code_simp
  have t: "(\<forall>c \<in> set [example_coin ''c'' ''c'' ''Gamma'' 7, example_coin ''a'' ''a'' ''Alpha'' 5].
        gt0 (price_change_percentage_24h c)) \<and>
      descending [example_coin ''c'' ''c'' ''Gamma'' 7, example_coin ''a'' ''a'' ''Alpha'' 5] \<and>
      (\<forall>c \<in> set [example_coin ''b'' ''b'' ''Beta'' (-3), example_coin ''d'' ''d'' ''Delta'' (-1)].
        lt0 (price_change_percentage_24h c)) \<and>
      ascending [example_coin ''b'' ''b'' ''Beta'' (-3), example_coin ''d'' ''d'' ''Delta'' (-1)]"
    using gainers_losers_sorted
      [of id "[example_coin ''a'' ''a'' ''Alpha'' 5, example_coin ''b'' ''b'' ''Beta'' (-3),
            example_coin ''c'' ''c'' ''Gamma'' 7, example_coin ''d'' ''d'' ''Delta'' (-1)]"
          "Some (example_coin ''p'' ''p'' ''Pinned'' 2)" "str ''''"]
    unfolding g l .
  show ?thesis using g l t by simp
qed

text \<open>
  C3. For every search term, every coin of the merged list, the pinned record included,
  has a name or a symbol whose lower-case form contains the lower-case form of the term as
  a contiguous run, the lower-case forms being those of \<open>String.prototype.toLowerCase\<close>.
  Said without \<open>toLowerCase\<close>: where the term, the name and the symbol are ASCII, the term
  stands at some position of the name or of the symbol up to the case of the letters
  \<open>A\<close> to \<open>Z\<close>; and where the three are lowered one code unit for one by a table, the term
  stands at some position of the name or of the symbol up to code units of equal
  lower-case form.
\<close>

theorem search_sound:
  "(\<forall>c \<in> set (filteredAndSortedCoins host coins vanryData s f).
      sublist (toLowerCase host s) (toLowerCase host (name c)) \<or>
      sublist (toLowerCase host s) (toLowerCase host (symbol c))) \<and>
   (\<forall>c \<in> set (filteredAndSortedCoins host coins vanryData s f).
      is_ascii s \<and> is_ascii (name c) \<and> is_ascii (symbol c) \<longrightarrow>
      contains_ignoring_case (name c) s \<or> contains_ignoring_case (symbol c) s) \<and>
   (\<forall>c \<in> set (filteredAndSortedCoins host coins vanryData s f).
      toLowerCase host s = map tbl s \<and>
      toLowerCase host (name c) = map tbl (name c) \<and>
      toLowerCase host (symbol c) = map tbl (symbol c) \<longrightarrow>
      contains_up_to (same_fold tbl) (name c) s \<or>
      contains_up_to (same_fold tbl) (symbol c) s)"
proof (intro conjI ballI impI)
  fix c assume "c \<in> set (filteredAndSortedCoins host coins vanryData s f)"
  then have "matchesSearch host c s" by (rule matchesSearch_merge)
  then show "sublist (toLowerCase host s) (toLowerCase host (name c)) \<or>
     sublist (toLowerCase host s) (toLowerCase host (symbol c))"
    by (simp add: matchesSearch_def includes_str_sublist)
next
  fix c assume c: "c \<in> set (filteredAndSortedCoins host coins vanryData s f)"
    and a: "is_ascii s \<and> is_ascii (name c) \<and> is_ascii (symbol c)"
  have "matchesSearch host c s" using c by (rule matchesSearch_merge)
  then show "contains_ignoring_case (name c) s \<or> contains_ignoring_case (symbol c) s"
    using a by (simp add: matchesSearch_ascii)
next
  fix c assume c: "c \<in> set (filteredAndSortedCoins host coins vanryData s f)"
    and a: "toLowerCase host s = map tbl s \<and>
      toLowerCase host (name c) = map tbl (name c) \<and>
      toLowerCase host (symbol c) = map tbl (symbol c)"
  have "matchesSearch host c s" using c by (rule matchesSearch_merge)
  then show "contains_up_to (same_fold tbl) (name c) s \<or>
      contains_up_to (same_fold tbl) (symbol c) s"
    using a matchesSearch_fold [of host s tbl c] by blast
qed

text \<open>
  Two searches. The ASCII term \<open>BT\<close> under \<open>losers\<close>: Bitcoin (\<open>-1\<close>, symbol \<open>btc\<close>) is in the
  merged list, and its symbol contains the term up to case. The term of the code units
  \<open>U+00E9\<close> and \<open>c\<close> on a host that lowers by \<open>lower_latin1\<close>: the coin named by the code
  units \<open>U+00C9\<close>, \<open>C\<close> and \<open>U\<close> is in the merged list, and its name begins with the term
  up to code units of equal lower-case form.
\<close>

theorem search_sound_witness:
  "example_coin ''bitcoin'' ''btc'' ''Bitcoin'' (-1) \<in>
     set (filteredAndSortedCoins id
       [example_coin ''bitcoin'' ''btc'' ''Bitcoin'' (-1),
        example_coin ''vanar-chain'' ''vanry'' ''Vanar Chain'' 4]
       (Some (example_coin ''vanar-chain'' ''vanry'' ''Vanar Chain'' 5)) (str ''BT'') Losers) \<and>
   is_ascii (str ''BT'') \<and>
   is_ascii (name (example_coin ''bitcoin'' ''btc'' ''Bitcoin'' (-1))) \<and>
   is_ascii (symbol (example_coin ''bitcoin'' ''btc'' ''Bitcoin'' (-1))) \<and>
   (sublist (toLowerCase id (str ''BT''))
      (toLowerCase id (name (example_coin ''bitcoin'' ''btc'' ''Bitcoin'' (-1)))) \<or>
    sublist (toLowerCase id (str ''BT''))
      (toLowerCase id (symbol (example_coin ''bitcoin'' ''btc'' ''Bitcoin'' (-1))))) \<and>
   (contains_ignoring_case (name (example_coin ''bitcoin'' ''btc'' ''Bitcoin'' (-1)))
      (str ''BT'') \<or>
    contains_ignoring_case (symbol (example_coin ''bitcoin'' ''btc'' ''Bitcoin'' (-1)))
      (str ''BT'')) \<and>
   example_coin ''ecu'' ''ecu'' [CHR 0xC9, CHR ''C'', CHR ''U''] 1 \<in>
     set (filteredAndSortedCoins (map lower_latin1)
       [example_coin ''bitcoin'' ''btc'' ''Bitcoin'' (-1),
        example_coin ''ecu'' ''ecu'' [CHR 0xC9, CHR ''C'', CHR ''U''] 1]
       None [0xE9, 0x63] All) \<and>
   (contains_up_to (same_fold lower_latin1)
      (name (example_coin ''ecu'' ''ecu'' [CHR 0xC9, CHR ''C'', CHR ''U''] 1)) [0xE9, 0x63] \<or>
    contains_up_to (same_fold lower_latin1)
      (symbol (example_coin ''ecu'' ''ecu'' [CHR 0xC9, CHR ''C'', CHR ''U''] 1)) [0xE9, 0x63])"
proof -
  have m: "example_coin ''bitcoin'' ''btc'' ''Bitcoin'' (-1) \<in>
     set (filteredAndSortedCoins id
       [example_coin ''bitcoin'' ''btc'' ''Bitcoin'' (-1),
        example_coin ''vanar-chain'' ''vanry'' ''Vanar Chain'' 4]
       (Some (example_coin ''vanar-chain'' ''vanry'' ''Vanar Chain'' 5)) (str ''BT'') Losers)"
    by code_simp
  have a: "is_ascii (str ''BT'') \<and>
     is_ascii (name (example_coin ''bitcoin'' ''btc'' ''Bitcoin'' (-1))) \<and>
     is_ascii (symbol (example_coin ''bitcoin'' ''btc'' ''Bitcoin'' (-1)))"
    by code_simp
  have m': "example_coin ''ecu'' ''ecu'' [CHR 0xC9, CHR ''C'', CHR ''U''] 1 \<in>
     set (filteredAndSortedCoins (map lower_latin1)
       [example_coin ''bitcoin'' ''btc'' ''Bitcoin'' (-1),
        example_coin ''ecu'' ''ecu'' [CHR 0xC9, CHR ''C'', CHR ''U''] 1]
       None [0xE9, 0x63] All)"
    by code_simp
  have a': "toLowerCase (map lower_latin1) [0xE9, 0x63] = map lower_latin1 [0xE9, 0x63] \<and>
     toLowerCase (map lower_latin1)
       (name (example_coin ''ecu'' ''ecu'' [CHR 0xC9, CHR ''C'', CHR ''U''] 1)) =
     map lower_latin1 (name (example_coin ''ecu'' ''ecu'' [CHR 0xC9, CHR ''C'', CHR ''U''] 1)) \<and>
     toLowerCase (map lower_latin1)
       (symbol (example_coin ''ecu'' ''ecu'' [CHR 0xC9, CHR ''C'', CHR ''U''] 1)) =
     map lower_latin1 (symbol (example_coin ''ecu'' ''ecu'' [CHR 0xC9, CHR ''C'', CHR ''U''] 1))"
    by code_simp
  have 1: "(sublist (toLowerCase id (str ''BT''))
        (toLowerCase id (name (example_coin ''bitcoin'' ''btc'' ''Bitcoin'' (-1)))) \<or>
      sublist (toLowerCase id (str ''BT''))
        (toLowerCase id (symbol (example_coin ''bitcoin'' ''btc'' ''Bitcoin'' (-1))))) \<and>
     (contains_ignoring_case (name (example_coin ''bitcoin'' ''btc'' ''Bitcoin'' (-1)))
        (str ''BT'') \<or>
      contains_ignoring_case (symbol (example_coin ''bitcoin'' ''btc'' ''Bitcoin'' (-1)))
        (str ''BT''))"
    using m a search_sound
      [of id "[example_coin ''bitcoin'' ''btc'' ''Bitcoin'' (-1),
            example_coin ''vanar-chain'' ''vanry'' ''Vanar Chain'' 4]"
          "Some (example_coin ''vanar-chain'' ''vanry'' ''Vanar Chain'' 5)" "str ''BT''" Losers]
    by blast
  have 2: "contains_up_to (same_fold lower_latin1)
        (name (example_coin ''ecu'' ''ecu'' [CHR 0xC9, CHR ''C'', CHR ''U''] 1)) [0xE9, 0x63] \<or>
      contains_up_to (same_fold lower_latin1)
        (symbol (example_coin ''ecu'' ''ecu'' [CHR 0xC9, CHR ''C'', CHR ''U''] 1)) [0xE9, 0x63]"
    using m' a' search_sound
      [of "map lower_latin1" "[example_coin ''bitcoin'' ''btc'' ''Bitcoin'' (-1),
            example_coin ''ecu'' ''ecu'' [CHR 0xC9, CHR ''C'', CHR ''U''] 1]"
          None "[0xE9, 0x63]" All lower_latin1]
    by blast
  show ?thesis using m a m' 1 2 by blast
qed

text \<open>
  C4. Whenever the pinned record is in the merged list, the list is not empty and the
  pinned record is its element at index 0, whatever the filter and its sort did to the
  rest.
\<close>

theorem pinned_first:
  "v \<in> set (filteredAndSortedCoins host coins (Some v) s f) \<Longrightarrow>
     0 < length (filteredAndSortedCoins host coins (Some v) s f) \<and>
     filteredAndSortedCoins host coins (Some v) s f ! 0 = v"
proof -
  assume "v \<in> set (filteredAndSortedCoins host coins (Some v) s f)"
  then have "matchesSearch host v s \<and> vanryMatchesFilter v f"
    by (simp only: pinned_in_merge)
  then show ?thesis by (simp add: merge_Some)
qed

theorem pinned_first_witness:
  "example_coin ''p'' ''p'' ''Pinned'' 2 \<in>
     set (filteredAndSortedCoins id
       [example_coin ''a'' ''a'' ''Alpha'' 5, example_coin ''c'' ''c'' ''Gamma'' 7]
       (Some (example_coin ''p'' ''p'' ''Pinned'' 2)) (str '''') Gainers) \<and>
   0 < length (filteredAndSortedCoins id
       [example_coin ''a'' ''a'' ''Alpha'' 5, example_coin ''c'' ''c'' ''Gamma'' 7]
       (Some (example_coin ''p'' ''p'' ''Pinned'' 2)) (str '''') Gainers) \<and>
   filteredAndSortedCoins id
       [example_coin ''a'' ''a'' ''Alpha'' 5, example_coin ''c'' ''c'' ''Gamma'' 7]
       (Some (example_coin ''p'' ''p'' ''Pinned'' 2)) (str '''') Gainers ! 0 =
     example_coin ''p'' ''p'' ''Pinned'' 2"
proof -
  have m: "example_coin ''p'' ''p'' ''Pinned'' 2 \<in>
     set (filteredAndSortedCoins id
       [example_coin ''a'' ''a'' ''Alpha'' 5, example_coin ''c'' ''c'' ''Gamma'' 7]
       (Some (example_coin ''p'' ''p'' ''Pinned'' 2)) (str '''') Gainers)"
    by code_simp
  show ?thesis using m pinned_first [OF m] by blast
qed

text \<open>
  C5, as the code has it. With the empty search term and the filter \<open>all\<close>, the merge
  returns the pinned record, when there is one, followed by the generic coins in their
  original order without those whose id is \<open>vanar-chain\<close>; without a pinned record it
  returns the generic list unchanged.
\<close>

theorem merge_identity:
  "filteredAndSortedCoins host coins (Some v) (str '''') All =
     v # filter (\<lambda>c. coin_id c \<noteq> str ''vanar-chain'') coins \<and>
   filteredAndSortedCoins host coins None (str '''') All = coins"
  by (simp add: merge_Some merge_None generic_empty_All matchesSearch_empty
      vanryMatchesFilter_def str_empty)

theorem merge_identity_witness:
  "filteredAndSortedCoins id
     [example_coin ''bitcoin'' ''btc'' ''Bitcoin'' (-1),
      example_coin ''vanar-chain'' ''vanry'' ''Vanar Chain'' 4]
     (Some (example_coin ''vanar-chain'' ''vanry'' ''Vanar Chain'' 5)) (str '''') All =
   [example_coin ''vanar-chain'' ''vanry'' ''Vanar Chain'' 5,
    example_coin ''bitcoin'' ''btc'' ''Bitcoin'' (-1)] \<and>
   filteredAndSortedCoins id
     [example_coin ''bitcoin'' ''btc'' ''Bitcoin'' (-1),
      example_coin ''vanar-chain'' ''vanry'' ''Vanar Chain'' 4]
     None (str '''') All =
   [example_coin ''bitcoin'' ''btc'' ''Bitcoin'' (-1),
    example_coin ''vanar-chain'' ''vanry'' ''Vanar Chain'' 4]"
  using merge_identity
    [of id "[example_coin ''bitcoin'' ''btc'' ''Bitcoin'' (-1),
          example_coin ''vanar-chain'' ''vanry'' ''Vanar Chain'' 4]"
        "example_coin ''vanar-chain'' ''vanry'' ''Vanar Chain'' 5"]
  by (simp add: example_coin_def str_def)

text \<open>
  The generic coins that are left out are not those sharing the pinned record's id: with
  a pinned record of id \<open>p\<close>, the generic coin of id \<open>vanar-chain\<close> shares no id with it and
  is dropped all the same.
\<close>

theorem merge_identity_counterexample:
  "coin_id (example_coin ''vanar-chain'' ''vanry'' ''Vanar Chain'' 4) \<noteq>
     coin_id (example_coin ''p'' ''p'' ''Pinned'' 2) \<and>
   filteredAndSortedCoins id
     [example_coin ''vanar-chain'' ''vanry'' ''Vanar Chain'' 4,
      example_coin ''a'' ''a'' ''Alpha'' 5]
     (Some (example_coin ''p'' ''p'' ''Pinned'' 2)) (str '''') All =
   [example_coin ''p'' ''p'' ''Pinned'' 2, example_coin ''a'' ''a'' ''Alpha'' 5]"
  by code_simp

text \<open>
  C6. With the coins Alpha (\<open>+5\<close>) and Beta (\<open>-3\<close>), the pinned record Pinned (\<open>+2\<close>), the
  filter \<open>gainers\<close> and the empty search term, the merge returns exactly Pinned followed by
  Alpha, whatever the image, price and market capitalisation of the three records are.
\<close>

theorem scenario_pinned_alpha:
  "filteredAndSortedCoins host
     [\<lparr>coin_id = str ''a'', symbol = str ''a'', name = str ''Alpha'', coin_image = i1,
       current_price = p1, price_change_percentage_24h = Fin 5, market_cap = m1\<rparr>,
      \<lparr>coin_id = str ''b'', symbol = str ''b'', name = str ''Beta'', coin_image = i2,
       current_price = p2, price_change_percentage_24h = Fin (-3), market_cap = m2\<rparr>]
     (Some \<lparr>coin_id = str ''p'', symbol = str ''p'', name = str ''Pinned'', coin_image = i3,
       current_price = p3, price_change_percentage_24h = Fin 2, market_cap = m3\<rparr>)
     (str '''') Gainers
   = [\<lparr>coin_id = str ''p'', symbol = str ''p'', name = str ''Pinned'', coin_image = i3,
       current_price = p3, price_change_percentage_24h = Fin 2, market_cap = m3\<rparr>,
      \<lparr>coin_id = str ''a'', symbol = str ''a'', name = str ''Alpha'', coin_image = i1,
       current_price = p1, price_change_percentage_24h = Fin 5, market_cap = m1\<rparr>]"
  by (simp add: filteredAndSortedCoins_def matchesSearch_empty vanryMatchesFilter_def
      sort_by_def str_def)

section \<open>The claims about the client, the detail view and the inputs\<close>

text \<open>
  C7. Each operation of the client settles with a value and never with an error, whatever
  the network does and whatever the date formatting throws. When the request fails (the
  transport fails, or the status is not a success) \<open>fetchCoins\<close> gives the empty array,
  \<open>fetchVanryData\<close> gives \<open>null\<close> and \<open>fetchChartData\<close> gives the empty array.
\<close>

theorem client_fails_soft:
  "(\<exists>v. fetchCoins net = Inr v) \<and>
   (\<exists>v. fetchVanryData net = Inr v) \<and>
   (\<exists>v. fetchChartData toLocaleDateString net coinId = Inr v) \<and>
   (request_failed net coins_url \<longrightarrow> fetchCoins net = Inr (JArr [])) \<and>
   (request_failed net vanry_url \<longrightarrow> fetchVanryData net = Inr JNull) \<and>
   (request_failed net (chart_url coinId) \<longrightarrow>
      fetchChartData toLocaleDateString net coinId = Inr (JArr []))"
proof (intro conjI impI)
  show "\<exists>v. fetchCoins net = Inr v"
    unfolding fetchCoins_def by (rule try_catch_Inr) simp
  show "\<exists>v. fetchVanryData net = Inr v"
    unfolding fetchVanryData_def by (rule try_catch_Inr) simp
  show "\<exists>v. fetchChartData toLocaleDateString net coinId = Inr v"
    unfolding fetchChartData_def by (rule try_catch_Inr) simp
next
  assume "request_failed net coins_url"
  then obtain e where "fetch_json net coins_url (str ''Failed to fetch coins'') = Inl e"
    using fetch_json_failed by blast
  then show "fetchCoins net = Inr (JArr [])"
    by (simp add: fetchCoins_def try_catch_def)
next
  assume "request_failed net vanry_url"
  then obtain e where "fetch_json net vanry_url (str ''Failed to fetch Vanry data'') = Inl e"
    using fetch_json_failed by blast
  then show "fetchVanryData net = Inr JNull"
    by (simp add: fetchVanryData_def try_catch_def bind_err_def)
next
  assume "request_failed net (chart_url coinId)"
  then obtain e where "fetch_json net (chart_url coinId) (str ''Failed to fetch chart data'') = Inl e"
    using fetch_json_failed by blast
  then show "fetchChartData toLocaleDateString net coinId = Inr (JArr [])"
    by (simp add: fetchChartData_def try_catch_def bind_err_def)
qed

text \<open>
  A network on which every request gets the status of a failure, with a body that would
  parse: the three operations give their empty results.
\<close>

theorem client_fails_soft_witness:
  "request_failed (\<lambda>url. Inr \<lparr>ok = False, json = Inr (JArr [JNull])\<rparr>) coins_url \<and>
   fetchCoins (\<lambda>url. Inr \<lparr>ok = False, json = Inr (JArr [JNull])\<rparr>) = Inr (JArr []) \<and>
   request_failed (\<lambda>url. Inr \<lparr>ok = False, json = Inr (JArr [JNull])\<rparr>) vanry_url \<and>
   fetchVanryData (\<lambda>url. Inr \<lparr>ok = False, json = Inr (JArr [JNull])\<rparr>) = Inr JNull \<and>
   request_failed (\<lambda>url. Inr \<lparr>ok = False, json = Inr (JArr [JNull])\<rparr>)
     (chart_url (str ''bitcoin'')) \<and>
   fetchChartData (\<lambda>t. Inr (str ''1/1/2025''))
     (\<lambda>url. Inr \<lparr>ok = False, json = Inr (JArr [JNull])\<rparr>) (str ''bitcoin'') = Inr (JArr [])"
  using client_fails_soft
    [of "\<lambda>url. Inr \<lparr>ok = False, json = Inr (JArr [JNull])\<rparr>" "\<lambda>t. Inr (str ''1/1/2025'')"
        "str ''bitcoin''"]
  by (simp add: request_failed_def)

text \<open>
  C8, as the code has it. The user selects X and then Y (closing the modal in between or
  not) while X's chart fetch is pending. Each of the two fetches, when it resolves, stores
  its data and clears the loading flag, whatever coin is selected by then. So if X's
  fetch resolves first, the modal of Y shows X's data until Y's fetch resolves, and Y's
  data from then on; if X's fetch resolves last, the modal of Y ends up showing X's
  data. Nothing discards the late result.
\<close>

theorem chart_last_resolved:
  assumes "X \<noteq> Y" and "selectedCoin s \<noteq> Some X" and "pending s = []"
    and "mid = [] \<or> mid = [Close]"
  shows
    "chartShown (run h s ([Select X] @ mid @ [Select Y, Resolve 0])) = Chart (h (coin_id X)) \<and>
     selectedCoin (run h s ([Select X] @ mid @ [Select Y, Resolve 0])) = Some Y \<and>
     chartShown (run h s ([Select X] @ mid @ [Select Y, Resolve 0, Resolve 0])) =
       Chart (h (coin_id Y)) \<and>
     chartShown (run h s ([Select X] @ mid @ [Select Y, Resolve 1, Resolve 0])) =
       Chart (h (coin_id X)) \<and>
     selectedCoin (run h s ([Select X] @ mid @ [Select Y, Resolve 1, Resolve 0])) = Some Y"
  using assms by (auto simp: run_def chartShown_def)

theorem chart_last_resolved_witness:
  "example_coin ''x'' ''x'' ''Xcoin'' 1 \<noteq> example_coin ''y'' ''y'' ''Ycoin'' 2 \<and>
   chartShown (run (\<lambda>i. JArr [JStr i]) initial_detail
     [Select (example_coin ''x'' ''x'' ''Xcoin'' 1), Select (example_coin ''y'' ''y'' ''Ycoin'' 2),
      Resolve 0, Resolve 0]) = Chart (JArr [JStr (str ''y'')]) \<and>
   chartShown (run (\<lambda>i. JArr [JStr i]) initial_detail
     [Select (example_coin ''x'' ''x'' ''Xcoin'' 1), Select (example_coin ''y'' ''y'' ''Ycoin'' 2),
      Resolve 1, Resolve 0]) = Chart (JArr [JStr (str ''x'')])"
proof -
  have d: "example_coin ''x'' ''x'' ''Xcoin'' 1 \<noteq> example_coin ''y'' ''y'' ''Ycoin'' 2"
    by (simp add: example_coin_def str_def)
  have i: "selectedCoin initial_detail \<noteq> Some (example_coin ''x'' ''x'' ''Xcoin'' 1)"
    "pending initial_detail = []"
    by (simp_all add: initial_detail_def)
  show ?thesis
    using d chart_last_resolved [OF d i, of "[]" "\<lambda>i. JArr [JStr i]"]
    by (simp add: example_coin_def str_def)
qed

text \<open>
  The chart does not always end with Y's data: select X, close, select Y, let Y's fetch
  resolve and then X's. The modal is Y's and its chart is drawn from X's data, which
  differs from Y's.
\<close>

theorem chart_last_resolved_counterexample:
  "selectedCoin (run (\<lambda>i. JArr [JStr i]) initial_detail
     [Select (example_coin ''x'' ''x'' ''Xcoin'' 1), Close,
      Select (example_coin ''y'' ''y'' ''Ycoin'' 2), Resolve 1, Resolve 0]) =
     Some (example_coin ''y'' ''y'' ''Ycoin'' 2) \<and>
   chartShown (run (\<lambda>i. JArr [JStr i]) initial_detail
     [Select (example_coin ''x'' ''x'' ''Xcoin'' 1), Close,
      Select (example_coin ''y'' ''y'' ''Ycoin'' 2), Resolve 1, Resolve 0]) =
     Chart (JArr [JStr (str ''x'')]) \<and>
   JArr [JStr (str ''x'')] \<noteq> JArr [JStr (str ''y'')]"
  by (simp add: run_def chartShown_def initial_detail_def example_coin_def str_def)

text \<open>
  C9. The merge leaves its inputs as they were: after it every coin object, the pinned
  record among them, has the fields it had, and every array that existed before, the
  stored coin list among them, has the elements it had in the order it had them. The
  array it returns is a new one, so the sort under \<open>gainers\<close> and \<open>losers\<close> has only
  rewritten an array made by the merge itself.
\<close>

theorem merge_frame:
  "filteredAndSortedCoins_store host coins vanryData searchTerm f s = (r, s') \<Longrightarrow>
     objects s' = objects s \<and>
     (\<forall>a<next_ref s. arrays s' a = arrays s a) \<and>
     next_ref s \<le> r"
proof -
  assume run: "filteredAndSortedCoins_store host coins vanryData searchTerm f s = (r, s')"
  obtain searched s1
    where 1: "array_filter (\<lambda>c. matchesSearch host c searchTerm) coins s = (searched, s1)"
    by (cases "array_filter (\<lambda>c. matchesSearch host c searchTerm) coins s")
  obtain filtered s2 where 2: "applyFilter_store f searched s1 = (filtered, s2)"
    by (cases "applyFilter_store f searched s1")
  have f1: "objects s1 = objects s" "\<forall>a<next_ref s. arrays s1 a = arrays s a"
    "searched = next_ref s" "next_ref s1 = Suc (next_ref s)"
    using 1 by (auto simp: array_filter_def new_array_def)
  have f2: "objects s2 = objects s1 \<and> (\<forall>b<next_ref s. arrays s2 b = arrays s1 b) \<and>
     next_ref s \<le> filtered \<and> filtered < next_ref s2 \<and> next_ref s1 \<le> next_ref s2"
    by (rule applyFilter_store_frame[OF 2]) (simp_all add: f1)
  show ?thesis
  proof (cases "\<exists>v. vanryData = Some v \<and> matchesSearch host (objects s2 v) searchTerm \<and>
                  vanryMatchesFilter (objects s2 v) f")
    case False
    then have "(r, s') = (filtered, s2)"
      using run 1 2 by (auto simp: filteredAndSortedCoins_store_def split: option.splits)
    then show ?thesis using f1 f2 by simp
  next
    case True
    then obtain v where v: "vanryData = Some v" "matchesSearch host (objects s2 v) searchTerm"
      "vanryMatchesFilter (objects s2 v) f" by blast
    obtain rest s3
      where 3: "array_filter (\<lambda>c. coin_id c \<noteq> str ''vanar-chain'') filtered s2 = (rest, s3)"
      by (cases "array_filter (\<lambda>c. coin_id c \<noteq> str ''vanar-chain'') filtered s2")
    have f3: "objects s3 = objects s2" "\<forall>a<next_ref s2. arrays s3 a = arrays s2 a"
      "next_ref s3 = Suc (next_ref s2)"
      using 3 by (auto simp: array_filter_def new_array_def)
    have "(r, s') = new_array (v # arrays s3 rest) s3"
      using run 1 2 3 v by (simp add: filteredAndSortedCoins_store_def)
    then have f4: "r = next_ref s3" "objects s' = objects s3"
      "\<forall>a<next_ref s3. arrays s' a = arrays s3 a"
      by (auto simp: new_array_def)
    show ?thesis using f1 f2 f3 f4 by auto
  qed
qed

text \<open>
  On the example store, under \<open>gainers\<close>: the stored list, array \<open>0\<close>, still holds the
  objects \<open>0\<close> and \<open>1\<close> in that order, and the returned array is not array \<open>0\<close>.
\<close>

theorem merge_frame_witness:
  "0 < next_ref example_store \<and>
   arrays (snd (filteredAndSortedCoins_store id 0 (Some 2) (str '''') Gainers example_store)) 0 =
     [0, 1] \<and>
   objects (snd (filteredAndSortedCoins_store id 0 (Some 2) (str '''') Gainers example_store)) =
     objects example_store \<and>
   next_ref example_store \<le>
     fst (filteredAndSortedCoins_store id 0 (Some 2) (str '''') Gainers example_store)"
proof -
  have n: "next_ref example_store = 1" "arrays example_store 0 = [0, 1]"
    by (simp_all add: example_store_def)
  have "objects (snd (filteredAndSortedCoins_store id 0 (Some 2) (str '''') Gainers example_store)) =
      objects example_store \<and>
    (\<forall>a<next_ref example_store.
       arrays (snd (filteredAndSortedCoins_store id 0 (Some 2) (str '''') Gainers example_store)) a =
       arrays example_store a) \<and>
    next_ref example_store \<le>
      fst (filteredAndSortedCoins_store id 0 (Some 2) (str '''') Gainers example_store)"
    by (rule merge_frame) simp
  then show ?thesis using n by simp
qed

text \<open>
  C10, as the code has it. A coin whose 24h change is exactly zero is in the merged list
  under neither \<open>gainers\<close> nor \<open>losers\<close>. Under \<open>all\<close> a coin of the generic list that matches
  the search is in the merged list, unless its id is \<open>vanar-chain\<close> and the pinned record
  is shown, which then takes its place. A pinned record with a change of exactly zero is
  in the merged list exactly when the filter is \<open>all\<close> and it matches the search.
\<close>

theorem zero_change:
  assumes "price_change_percentage_24h c = Fin 0"
  shows
    "(c \<in> set coins \<and> matchesSearch host c s \<and>
        (coin_id c \<noteq> str ''vanar-chain'' \<or> \<not> pinnedShown host vanryData s All) \<longrightarrow>
        c \<in> set (filteredAndSortedCoins host coins vanryData s All)) \<and>
     c \<notin> set (filteredAndSortedCoins host coins vanryData s Gainers) \<and>
     c \<notin> set (filteredAndSortedCoins host coins vanryData s Losers) \<and>
     (c \<in> set (filteredAndSortedCoins host coins (Some c) s f) \<longleftrightarrow> f = All \<and> matchesSearch host c s)"
proof (intro conjI impI)
  assume h: "c \<in> set coins \<and> matchesSearch host c s \<and>
      (coin_id c \<noteq> str ''vanar-chain'' \<or> \<not> pinnedShown host vanryData s All)"
  then have g: "c \<in> set (generic host coins s All)"
    by (simp add: set_generic vanryMatchesFilter_def)
  show "c \<in> set (filteredAndSortedCoins host coins vanryData s All)"
  proof (cases vanryData)
    case None
    then show ?thesis using g by (simp add: merge_None)
  next
    case (Some v)
    then show ?thesis using g h by (auto simp: merge_Some pinnedShown_def)
  qed
next
  show "c \<notin> set (filteredAndSortedCoins host coins vanryData s Gainers)"
    using assms matchesFilter_merge [of c host coins vanryData s Gainers]
    by (auto simp: vanryMatchesFilter_def)
  show "c \<notin> set (filteredAndSortedCoins host coins vanryData s Losers)"
    using assms matchesFilter_merge [of c host coins vanryData s Losers]
    by (auto simp: vanryMatchesFilter_def)
  show "c \<in> set (filteredAndSortedCoins host coins (Some c) s f) \<longleftrightarrow> f = All \<and> matchesSearch host c s"
    using assms by (auto simp: pinned_in_merge vanryMatchesFilter_def)
qed

theorem zero_change_witness:
  "price_change_percentage_24h (example_coin ''z'' ''z'' ''Zero'' 0) = Fin 0 \<and>
   example_coin ''z'' ''z'' ''Zero'' 0 \<in>
     set (filteredAndSortedCoins id
       [example_coin ''z'' ''z'' ''Zero'' 0, example_coin ''a'' ''a'' ''Alpha'' 5]
       (Some (example_coin ''p'' ''p'' ''Pinned'' 2)) (str ''ze'') All) \<and>
   example_coin ''z'' ''z'' ''Zero'' 0 \<notin>
     set (filteredAndSortedCoins id
       [example_coin ''z'' ''z'' ''Zero'' 0, example_coin ''a'' ''a'' ''Alpha'' 5]
       (Some (example_coin ''p'' ''p'' ''Pinned'' 2)) (str ''ze'') Gainers) \<and>
   example_coin ''z'' ''z'' ''Zero'' 0 \<notin>
     set (filteredAndSortedCoins id
       [example_coin ''z'' ''z'' ''Zero'' 0, example_coin ''a'' ''a'' ''Alpha'' 5]
       (Some (example_coin ''p'' ''p'' ''Pinned'' 2)) (str ''ze'') Losers)"
proof -
  have z: "price_change_percentage_24h (example_coin ''z'' ''z'' ''Zero'' 0) = Fin 0"
    by (simp add: example_coin_def str_def)
  have h: "example_coin ''z'' ''z'' ''Zero'' 0 \<in>
      set [example_coin ''z'' ''z'' ''Zero'' 0, example_coin ''a'' ''a'' ''Alpha'' 5] \<and>
    matchesSearch id (example_coin ''z'' ''z'' ''Zero'' 0) (str ''ze'') \<and>
    coin_id (example_coin ''z'' ''z'' ''Zero'' 0) \<noteq> str ''vanar-chain''"
    by code_simp
  show ?thesis
    using z h zero_change [OF z,
        where coins = "[example_coin ''z'' ''z'' ''Zero'' 0, example_coin ''a'' ''a'' ''Alpha'' 5]"
          and host = id and s = "str ''ze''"
          and vanryData = "Some (example_coin ''p'' ''p'' ''Pinned'' 2)"]
    by blast
qed

text \<open>
  Matching the search is not enough under \<open>all\<close>: the generic list's Vanar Chain entry has
  a change of zero and matches the empty search, the pinned record (\<open>+5\<close>) is shown, and
  the merged list is the pinned record alone.
\<close>

theorem zero_change_counterexample:
  "price_change_percentage_24h (example_coin ''vanar-chain'' ''vanry'' ''Vanar Chain'' 0) =
     Fin 0 \<and>
   matchesSearch id (example_coin ''vanar-chain'' ''vanry'' ''Vanar Chain'' 0) (str '''') \<and>
   filteredAndSortedCoins id [example_coin ''vanar-chain'' ''vanry'' ''Vanar Chain'' 0]
     (Some (example_coin ''vanar-chain'' ''vanry'' ''Vanar Chain'' 5)) (str '''') All =
   [example_coin ''vanar-chain'' ''vanry'' ''Vanar Chain'' 5] \<and>
   example_coin ''vanar-chain'' ''vanry'' ''Vanar Chain'' 0 \<noteq>
     example_coin ''vanar-chain'' ''vanry'' ''Vanar Chain'' 5"
  by code_simp

end
